theory Spec2Isabelle
  imports Complex_Main "HOL-Library.Signed_Division" "HOL-Library.Sublist"
begin

section \<open>Go's 64-bit integers\<close>

text \<open>
  Go's \<open>int64\<close> (and \<open>int\<close>, \<open>time.Duration\<close>) are modelled as \<open>int\<close> with the
  wrap-around written out: every \<open>+\<close> and \<open>-\<close> of the source goes through
  \<open>add64\<close> and \<open>sub64\<close>. Go's \<open>%\<close> truncates towards zero: it is \<open>smod\<close>.
\<close>

definition MinInt64 :: int where
  "MinInt64 = - 9223372036854775808"

definition MaxInt64 :: int where
  "MaxInt64 = 9223372036854775807"

definition in_int64 :: "int \<Rightarrow> bool" where
  "in_int64 x \<longleftrightarrow> MinInt64 \<le> x \<and> x \<le> MaxInt64"

definition wrap64 :: "int \<Rightarrow> int" where
  "wrap64 x = (x + 9223372036854775808) mod 18446744073709551616 - 9223372036854775808"

definition add64 :: "int \<Rightarrow> int \<Rightarrow> int" where
  "add64 a b = wrap64 (a + b)"

definition sub64 :: "int \<Rightarrow> int \<Rightarrow> int" where
  "sub64 a b = wrap64 (a - b)"

definition mul64 :: "int \<Rightarrow> int \<Rightarrow> int" where
  "mul64 a b = wrap64 (a * b)"

definition rem64 :: "int \<Rightarrow> int \<Rightarrow> int" where
  "rem64 a b = a smod b"

section \<open>Constants and small types of the collaborating packages\<close>

text \<open>
  Modelled from the spec: the global minimum sentinel timestamp. \<open>influxql.MinTime\<close> is not
  part of the sources at hand; it is the smallest \<open>int64\<close> plus two.
\<close>

definition MinTime :: int where
  "MinTime = - 9223372036854775806"

text \<open>
  Modelled from the spec: the global maximum sentinel timestamp. \<open>influxql.MaxTime\<close> is not
  part of the sources at hand; it is the largest \<open>int64\<close> minus one.
\<close>

definition MaxTime :: int where
  "MaxTime = 9223372036854775806"

text \<open>
  Modelled from the spec: \<open>hybridqp.SecToNs\<close> and \<open>hybridqp.Abs\<close>, which \<open>Zone\<close> and
  \<open>Window\<close> use and which are not in the sources at hand: the nanoseconds of a second, and
  the absolute value in \<open>int64\<close>.
\<close>

definition SecToNs :: int where
  "SecToNs = 1000000000"

definition Abs :: "int \<Rightarrow> int" where
  "Abs x = (if x < 0 then sub64 0 x else x)"

text \<open>
  Modelled from the spec: \<open>hybridqp.Interval\<close> (not in the sources at hand), the window
  interval and offset of the options, both in nanoseconds; it is zero when its duration is.
\<close>

record Interval =
  Duration :: int
  Offset :: int

definition IsZero :: "Interval \<Rightarrow> bool" where
  "IsZero i \<longleftrightarrow> Duration i = 0"

text \<open>
  Modelled from the spec: the fill policy, \<open>influxql.FillOption\<close> (not in the sources at
  hand).
\<close>

datatype FillOption = NullFill | NoFill | NumberFill | PreviousFill | LinearFill

text \<open>
  Modelled from the spec: \<open>influxql.TimeRange\<close> (not in the sources at hand), the time
  bounds of a condition. \<open>None\<close> is the zero \<open>time.Time\<close> (\<open>IsZero()\<close>), \<open>Some n\<close> a
  time whose \<open>UnixNano()\<close> is \<open>n\<close>.
\<close>

record TimeRange =
  Min_tr :: "int option"
  Max_tr :: "int option"

text \<open>
  Modelled from the spec: \<open>TimeRange.MinTimeNano\<close> and \<open>TimeRange.MaxTimeNano\<close> are not in
  the sources at hand; an unconstrained bound defaults to the global sentinel timestamp.
\<close>

definition MinTimeNano :: "TimeRange \<Rightarrow> int" where
  "MinTimeNano t = (case Min_tr t of None \<Rightarrow> MinTime | Some n \<Rightarrow> n)"

definition MaxTimeNano :: "TimeRange \<Rightarrow> int" where
  "MaxTimeNano t = (case Max_tr t of None \<Rightarrow> MaxTime | Some n \<Rightarrow> n)"

text \<open>A dimension of a statement: a variable reference or any other expression.\<close>

datatype DimExpr = VarRef string | OtherExpr string

section \<open>The statement and the options (open_src/influx/query/select.go)\<close>

text \<open>
  The parsed statement. The methods of \<open>influxql.SelectStatement\<close> and
  \<open>influxql.ConditionExpr\<close> are outside the sources at hand, so the statement carries their
  results: \<open>ConditionExpr_stmt\<close> is what \<open>influxql.ConditionExpr(stmt.Condition, valuer)\<close>
  returns (an error, or the residual condition and the time range), \<open>GroupByInterval_stmt\<close>
  and \<open>GroupByOffset_stmt\<close> what the two methods return, \<open>TimeAscending_stmt\<close> what
  \<open>stmt.TimeAscending()\<close> returns. A \<open>*time.Location\<close> is the function giving the zone
  offset in seconds at an instant in nanoseconds.
\<close>

record SelectStatement =
  Location_stmt :: "(int \<Rightarrow> int) option"
  ConditionExpr_stmt :: "string + (string \<times> TimeRange)"
  GroupByInterval_stmt :: "string + int"
  GroupByOffset_stmt :: "string + int"
  Dimensions_stmt :: "DimExpr list"
  TimeAscending_stmt :: bool
  Dedupe_stmt :: bool
  StripName_stmt :: bool
  Fill_stmt :: FillOption
  FillValue_stmt :: "int option"
  Target_stmt :: "string option"
  Limit_stmt :: int
  Offset_stmt :: int
  SLimit_stmt :: int
  SOffset_stmt :: int
  GroupByAllDims_stmt :: bool
  IsRawQuery_stmt :: bool

record SelectOptions =
  Authorizer_sopt :: "nat option"
  MaxSeriesN_sopt :: int
  ChunkedSize_sopt :: int
  Chunked_sopt :: bool
  ChunkSize_sopt :: int
  Traceid_sopt :: nat
  MaxQueryParallel_sopt :: int
  AbortChan_sopt :: "nat option"
  RowsChan_sopt :: "nat option"

record ProcessorOptions =
  Name :: string
  Interval :: Interval
  Dimensions :: "string list"
  GroupBy :: "string set"
  Location :: "(int \<Rightarrow> int) option"
  Fill :: FillOption
  FillValue :: "int option"
  Condition :: string
  StartTime :: int
  EndTime :: int
  Limit :: int
  Offset_opt :: int
  SLimit :: int
  SOffset :: int
  Ascending :: bool
  StripName :: bool
  Dedupe :: bool
  Ordered :: bool
  MaxSeriesN :: int
  InterruptCh :: "nat option"
  Authorizer :: "nat option"
  ChunkedSize :: int
  Chunked :: bool
  ChunkSize :: int
  MaxParallel :: int
  AbortChan :: "nat option"
  RowsChan :: "nat option"
  Traceid :: nat
  GroupByAllDims :: bool

text \<open>The zero value \<open>ProcessorOptions{}\<close> and the zero \<open>SelectOptions{}\<close>.\<close>

definition zeroOptions :: ProcessorOptions where
  "zeroOptions = \<lparr> Name = [], Interval = \<lparr> Duration = 0, Offset = 0 \<rparr>, Dimensions = [],
     GroupBy = {}, Location = None, Fill = NullFill, FillValue = None, Condition = [],
     StartTime = 0, EndTime = 0, Limit = 0, Offset_opt = 0, SLimit = 0, SOffset = 0,
     Ascending = False, StripName = False, Dedupe = False, Ordered = False, MaxSeriesN = 0,
     InterruptCh = None, Authorizer = None, ChunkedSize = 0, Chunked = False, ChunkSize = 0,
     MaxParallel = 0, AbortChan = None, RowsChan = None, Traceid = 0, GroupByAllDims = False \<rparr>"

definition zeroSelectOptions :: SelectOptions where
  "zeroSelectOptions = \<lparr> Authorizer_sopt = None, MaxSeriesN_sopt = 0, ChunkedSize_sopt = 0,
     Chunked_sopt = False, ChunkSize_sopt = 0, Traceid_sopt = 0, MaxQueryParallel_sopt = 0,
     AbortChan_sopt = None, RowsChan_sopt = None \<rparr>"

text \<open>\<open>ContainDim\<close> answers \<open>true\<close> when \<open>src\<close> is \<^emph>\<open>not\<close> among \<open>des\<close>.\<close>

fun ContainDim :: "string list \<Rightarrow> string \<Rightarrow> bool" where
  "ContainDim [] src = True"
| "ContainDim (d # des) src = (if src = d then False else ContainDim des src)"

text \<open>The loop over \<open>stmt.Dimensions\<close>, on the pair of \<open>opt.Dimensions\<close> and \<open>opt.GroupBy\<close>.\<close>

fun addDimensions :: "DimExpr list \<Rightarrow> string list \<times> string set \<Rightarrow> string list \<times> string set" where
  "addDimensions [] acc = acc"
| "addDimensions (VarRef v # ds) (dims, gb) =
     (if ContainDim dims v then addDimensions ds (dims @ [v], insert v gb)
      else addDimensions ds (dims, gb))"
| "addDimensions (OtherExpr e # ds) acc = addDimensions ds acc"

text \<open>
  \<open>NewProcessorOptionsStmt\<close>. Go returns the pair \<open>(opt, err)\<close>; the error is \<open>None\<close> for
  \<open>nil\<close>. The named result \<open>opt\<close> starts as the zero value. When \<open>GroupByOffset\<close> fails,
  the offset it returns with the error is taken to be zero.
\<close>

definition NewProcessorOptionsStmt ::
  "SelectStatement \<Rightarrow> SelectOptions \<Rightarrow> ProcessorOptions \<times> string option" where
  "NewProcessorOptionsStmt stmt sopt =
    (case ConditionExpr_stmt stmt of
       Inl err \<Rightarrow> (zeroOptions, Some err)
     | Inr (condition, timeRange) \<Rightarrow>
        (let opt1 = zeroOptions
               \<lparr> StartTime := (case Min_tr timeRange of Some n \<Rightarrow> n | None \<Rightarrow> MinTime),
                 EndTime := (case Max_tr timeRange of Some n \<Rightarrow> n | None \<Rightarrow> MaxTime),
                 Location := Location_stmt stmt \<rparr>
         in case GroupByInterval_stmt stmt of
              Inl err \<Rightarrow> (opt1, Some err)
            | Inr interval \<Rightarrow>
               (case (if interval < 0 then Inr (0, 0)
                      else if interval > 0
                      then (case GroupByOffset_stmt stmt of
                              Inl err \<Rightarrow> Inl err
                            | Inr off \<Rightarrow> Inr (interval, off))
                      else Inr (interval, 0)) of
                  Inl err \<Rightarrow> (opt1, Some err)
                | Inr (dur, off) \<Rightarrow>
                 (let (dims, gb) = addDimensions (Dimensions_stmt stmt) ([], {})
                  in (opt1
                       \<lparr> Interval := \<lparr> Duration = dur, Offset = off \<rparr>,
                         Ordered := True,
                         Dimensions := dims,
                         GroupBy := gb,
                         Condition := condition,
                         Ascending := TimeAscending_stmt stmt,
                         Dedupe := Dedupe_stmt stmt,
                         StripName := StripName_stmt stmt,
                         FillValue := FillValue_stmt stmt,
                         Fill := (if Fill_stmt stmt = NullFill \<and> Target_stmt stmt \<noteq> None
                                  then NoFill else Fill_stmt stmt),
                         Limit := Limit_stmt stmt,
                         Offset_opt := Offset_stmt stmt,
                         SLimit := SLimit_stmt stmt,
                         SOffset := SOffset_stmt stmt,
                         MaxSeriesN := MaxSeriesN_sopt sopt,
                         Authorizer := Authorizer_sopt sopt,
                         ChunkedSize := ChunkedSize_sopt sopt,
                         Chunked := Chunked_sopt sopt,
                         ChunkSize := ChunkSize_sopt sopt,
                         Traceid := Traceid_sopt sopt,
                         MaxParallel := MaxQueryParallel_sopt sopt,
                         AbortChan := AbortChan_sopt sopt,
                         RowsChan := RowsChan_sopt sopt,
                         GroupByAllDims := GroupByAllDims_stmt stmt \<rparr>, None)))))"

text \<open>
  \<open>newProcessorOptionsSubstatement\<close>, block by block in the order of the source. Of the
  context only \<open>ctx.Value("now")\<close> is read: \<open>now\<close> is \<open>None\<close> when the key is absent,
  else the \<open>UnixNano()\<close> of the stored time.
\<close>

text \<open>Lines 313-318: the child's range is cut to the parent's.\<close>

definition clampToParent :: "ProcessorOptions \<Rightarrow> ProcessorOptions \<Rightarrow> ProcessorOptions" where
  "clampToParent opt subOpt =
    (let subOpt1 = (if StartTime subOpt < StartTime opt
                    then subOpt \<lparr> StartTime := StartTime opt \<rparr> else subOpt)
     in if EndTime subOpt1 > EndTime opt then subOpt1 \<lparr> EndTime := EndTime opt \<rparr> else subOpt1)"

text \<open>Lines 319-323: an interval query without upper bound ends at the context's \<open>now\<close>.\<close>

definition endAtNow :: "int option \<Rightarrow> ProcessorOptions \<Rightarrow> ProcessorOptions" where
  "endAtNow now subOpt =
    (if \<not> IsZero (Interval subOpt) \<and> EndTime subOpt = MaxTime
     then (case now of None \<Rightarrow> subOpt | Some n \<Rightarrow> subOpt \<lparr> EndTime := n \<rparr>)
     else subOpt)"

text \<open>Lines 324-329: dimensions, group-by keys and the interrupt channel of the parent.\<close>

definition propagateDimensions :: "ProcessorOptions \<Rightarrow> ProcessorOptions \<Rightarrow> ProcessorOptions" where
  "propagateDimensions opt subOpt =
    subOpt \<lparr> Dimensions := Dimensions opt,
             GroupBy := GroupBy subOpt \<union> GroupBy opt,
             InterruptCh := InterruptCh opt \<rparr>"

text \<open>Lines 337-345: the condition, and the statement's own range where it is tighter.\<close>

definition constrainTime ::
  "ProcessorOptions \<Rightarrow> string \<Rightarrow> TimeRange \<Rightarrow> ProcessorOptions \<Rightarrow> ProcessorOptions" where
  "constrainTime opt cond t subOpt =
    (let subOpt1 = subOpt \<lparr> Condition := cond \<rparr>;
         subOpt2 = (if Min_tr t \<noteq> None \<and> MinTimeNano t > StartTime opt
                    then subOpt1 \<lparr> StartTime := MinTimeNano t \<rparr> else subOpt1)
     in if Max_tr t \<noteq> None \<and> MaxTimeNano t < EndTime opt
        then subOpt2 \<lparr> EndTime := MaxTimeNano t \<rparr> else subOpt2)"

text \<open>Lines 347-352: SLIMIT, SOFFSET and the ordering of the parent.\<close>

definition propagateLimits :: "ProcessorOptions \<Rightarrow> ProcessorOptions \<Rightarrow> ProcessorOptions" where
  "propagateLimits opt subOpt =
    subOpt \<lparr> SLimit := add64 (SLimit subOpt) (SLimit opt),
             SOffset := add64 (SOffset subOpt) (SOffset opt),
             Ascending := Ascending opt \<rparr>"

text \<open>Lines 362-367: a null fill of a query that is not raw becomes none; the ordering method.\<close>

definition stripNullFill :: "SelectStatement \<Rightarrow> ProcessorOptions \<Rightarrow> ProcessorOptions \<Rightarrow> ProcessorOptions" where
  "stripNullFill stmt opt subOpt =
    (let subOpt1 = (if \<not> IsRawQuery_stmt stmt \<and> Fill subOpt = NullFill
                    then subOpt \<lparr> Fill := NoFill \<rparr> else subOpt)
     in subOpt1 \<lparr> Ordered := Ordered opt \<rparr>)"

definition newProcessorOptionsSubstatement ::
  "int option \<Rightarrow> SelectStatement \<Rightarrow> ProcessorOptions \<Rightarrow> ProcessorOptions \<times> string option" where
  "newProcessorOptionsSubstatement now stmt opt =
    (case NewProcessorOptionsStmt stmt
            (zeroSelectOptions \<lparr> Authorizer_sopt := Authorizer opt, MaxSeriesN_sopt := MaxSeriesN opt \<rparr>) of
       (_, Some err) \<Rightarrow> (zeroOptions, Some err)
     | (subOpt0, None) \<Rightarrow>
        (let subOpt1 = propagateDimensions opt (endAtNow now (clampToParent opt subOpt0))
         in case ConditionExpr_stmt stmt of
              Inl err \<Rightarrow> (zeroOptions, Some err)
            | Inr (cond, t) \<Rightarrow>
               (let subOpt2 = stripNullFill stmt opt
                                (propagateLimits opt (constrainTime opt cond t subOpt1))
                in case GroupByInterval_stmt stmt of
                     Inl err \<Rightarrow> (zeroOptions, Some err)
                   | Inr interval \<Rightarrow>
                      (if interval = 0 then (subOpt2 \<lparr> Interval := Interval opt \<rparr>, None)
                       else (subOpt2, None)))))"

text \<open>\<open>ProcessorOptions.Zone\<close>: the zone offset in nanoseconds (the zone name is dropped).\<close>

definition Zone :: "ProcessorOptions \<Rightarrow> int \<Rightarrow> int" where
  "Zone opt ns = (case Location opt of None \<Rightarrow> 0 | Some loc \<Rightarrow> mul64 SecToNs (loc ns))"

text \<open>\<open>ProcessorOptions.Window\<close>, statement by statement.\<close>

definition Window :: "ProcessorOptions \<Rightarrow> int \<Rightarrow> int \<times> int" where
  "Window opt t0 =
    (if IsZero (Interval opt) then (StartTime opt, add64 (EndTime opt) 1)
     else
      (let D = Duration (Interval opt);
           off = Offset (Interval opt);
           t = sub64 t0 off;
           zone = (case Location opt of None \<Rightarrow> 0 | Some loc \<Rightarrow> Zone opt t);
           dt0 = rem64 (add64 t zone) D;
           dt = (if dt0 < 0 then add64 dt0 D else dt0);
           start1 = (if add64 MinTime dt \<ge> t then MinTime else sub64 t dt);
           start2 = add64 start1 off;
           start3 = (case Location opt of
                       None \<Rightarrow> start2
                     | Some loc \<Rightarrow>
                        (let startOffset = Zone opt start2; zo = sub64 zone startOffset
                         in if zo \<noteq> 0 \<and> Abs zo < D then add64 start2 zo else start2));
           dt' = sub64 D dt;
           end1 = (if sub64 MaxTime dt' \<le> t then MaxTime else add64 t dt');
           end2 = (case Location opt of
                     None \<Rightarrow> end1
                   | Some loc \<Rightarrow>
                      (let endOffset = Zone opt end1; zo = sub64 zone endOffset
                       in if zo \<noteq> 0 \<and> Abs zo < D
                          then (if zo > 0 then add64 end1 zo
                                else if Zone opt (add64 end1 zo) = endOffset then add64 end1 zo
                                else end1)
                          else end1))
       in (start3, add64 end2 off)))"

text \<open>
  The timestamps on which \<open>Window\<close> neither clamps to a sentinel nor wraps around:
  \<open>t - Offset\<close> lies in \<open>[MinTime, MaxTime)\<close>, the duration is an \<open>int64\<close>, and adding the
  offset back stays inside \<open>int64\<close> (always so when the offset is zero).
\<close>

definition inWindowDomain :: "ProcessorOptions \<Rightarrow> int \<Rightarrow> bool" where
  "inWindowDomain opt t \<longleftrightarrow>
     MinTime \<le> t - Offset (Interval opt) \<and> t - Offset (Interval opt) < MaxTime \<and>
     Duration (Interval opt) \<le> MaxInt64 \<and>
     (Offset (Interval opt) = 0 \<or>
      MinInt64 + Duration (Interval opt) \<le> t \<and> t + Duration (Interval opt) \<le> MaxInt64)"

text \<open>The start of the interval of length \<open>Duration\<close> around \<open>t\<close>, before adding the offset back.\<close>

definition windowBase :: "ProcessorOptions \<Rightarrow> int \<Rightarrow> int" where
  "windowBase opt t =
     (t - Offset (Interval opt)) - (t - Offset (Interval opt)) mod Duration (Interval opt)"

subsection \<open>Example statements and options\<close>

text \<open>\<open>SELECT mean(v) FROM (...) GROUP BY time(10ns), host fill(null)\<close>, no time condition.\<close>

definition intervalStmt :: SelectStatement where
  "intervalStmt = \<lparr> Location_stmt = None,
     ConditionExpr_stmt = Inr ([], \<lparr> Min_tr = None, Max_tr = None \<rparr>),
     GroupByInterval_stmt = Inr 10, GroupByOffset_stmt = Inr 0,
     Dimensions_stmt = [VarRef ''host''], TimeAscending_stmt = True, Dedupe_stmt = False,
     StripName_stmt = False, Fill_stmt = NullFill, FillValue_stmt = None, Target_stmt = None,
     Limit_stmt = 0, Offset_stmt = 0, SLimit_stmt = 2, SOffset_stmt = 1,
     GroupByAllDims_stmt = False, IsRawQuery_stmt = False \<rparr>"


text \<open>A parent without time bounds, descending, with SLIMIT 3 SOFFSET 4.\<close>

definition unboundedParent :: ProcessorOptions where
  "unboundedParent = zeroOptions \<lparr> StartTime := MinTime, EndTime := MaxTime,
     SLimit := 3, SOffset := 4, Ascending := False \<rparr>"

text \<open>Options with a 10ns interval over the whole time range, no time zone.\<close>

definition tenNsOptions :: ProcessorOptions where
  "tenNsOptions = zeroOptions \<lparr> Interval := \<lparr> Duration = 10, Offset = 0 \<rparr>,
     StartTime := MinTime, EndTime := MaxTime \<rparr>"


subsection \<open>The builder on an explicit store\<close>

text \<open>
  Go hands the statement to \<open>NewProcessorOptionsStmt\<close> by pointer, so a side effect of the
  builder would show as a change of the statement. What the builder calls with it,
  \<open>influxql.ConditionExpr\<close>, \<open>GroupByInterval\<close>, \<open>GroupByOffset\<close> and
  \<open>TimeAscending\<close>, is outside the sources at hand; \<open>Collaborators\<close> gives, for each of
  the four, the statement as the call leaves it. The outer options are passed by value.
\<close>

record Collaborators =
  afterConditionExpr :: "SelectStatement \<Rightarrow> SelectStatement"
  afterGroupByInterval :: "SelectStatement \<Rightarrow> SelectStatement"
  afterGroupByOffset :: "SelectStatement \<Rightarrow> SelectStatement"
  afterTimeAscending :: "SelectStatement \<Rightarrow> SelectStatement"


text \<open>
  \<open>NewProcessorOptionsStmt\<close> once more, statement by statement in the order of the source
  (lines 222-302), now returning the statement as the builder leaves it next to the pair
  \<open>(opt, err)\<close>. Every read goes to the statement as it is at that line, every call passes
  it on through the collaborator, and every assignment of the source is to a field of the
  result \<open>opt\<close>.
\<close>

definition NewProcessorOptionsStmt_store ::
  "Collaborators \<Rightarrow> SelectStatement \<Rightarrow> SelectOptions \<Rightarrow>
   (ProcessorOptions \<times> string option) \<times> SelectStatement" where
  "NewProcessorOptionsStmt_store m stmt sopt =
    (let s1 = afterConditionExpr m stmt
     in case ConditionExpr_stmt stmt of
       Inl err \<Rightarrow> ((zeroOptions, Some err), s1)
     | Inr (condition, timeRange) \<Rightarrow>
        (let opt1 = zeroOptions
               \<lparr> StartTime := (case Min_tr timeRange of Some n \<Rightarrow> n | None \<Rightarrow> MinTime),
                 EndTime := (case Max_tr timeRange of Some n \<Rightarrow> n | None \<Rightarrow> MaxTime),
                 Location := Location_stmt s1 \<rparr>;
             s2 = afterGroupByInterval m s1
         in case GroupByInterval_stmt s1 of
              Inl err \<Rightarrow> ((opt1, Some err), s2)
            | Inr interval \<Rightarrow>
               (let s3 = (if interval > 0 then afterGroupByOffset m s2 else s2)
                in case (if interval < 0 then Inr (0, 0)
                         else if interval > 0
                         then (case GroupByOffset_stmt s2 of
                                 Inl err \<Rightarrow> Inl err
                               | Inr off \<Rightarrow> Inr (interval, off))
                         else Inr (interval, 0)) of
                     Inl err \<Rightarrow> ((opt1, Some err), s3)
                   | Inr (dur, off) \<Rightarrow>
                      (let (dims, gb) = addDimensions (Dimensions_stmt s3) ([], {});
                           s4 = afterTimeAscending m s3
                       in ((opt1
                             \<lparr> Interval := \<lparr> Duration = dur, Offset = off \<rparr>,
                               Ordered := True,
                               Dimensions := dims,
                               GroupBy := gb,
                               Condition := condition,
                               Ascending := TimeAscending_stmt s3,
                               Dedupe := Dedupe_stmt s4,
                               StripName := StripName_stmt s4,
                               FillValue := FillValue_stmt s4,
                               Fill := (if Fill_stmt s4 = NullFill \<and> Target_stmt s4 \<noteq> None
                                        then NoFill else Fill_stmt s4),
                               Limit := Limit_stmt s4,
                               Offset_opt := Offset_stmt s4,
                               SLimit := SLimit_stmt s4,
                               SOffset := SOffset_stmt s4,
                               MaxSeriesN := MaxSeriesN_sopt sopt,
                               Authorizer := Authorizer_sopt sopt,
                               ChunkedSize := ChunkedSize_sopt sopt,
                               Chunked := Chunked_sopt sopt,
                               ChunkSize := ChunkSize_sopt sopt,
                               Traceid := Traceid_sopt sopt,
                               MaxParallel := MaxQueryParallel_sopt sopt,
                               AbortChan := AbortChan_sopt sopt,
                               RowsChan := RowsChan_sopt sopt,
                               GroupByAllDims := GroupByAllDims_stmt s4 \<rparr>, None), s4)))))"

subsection \<open>More example statements and options\<close>

text \<open>The interval statement written into a target measurement (\<open>SELECT ... INTO dst\<close>).\<close>

definition targetStmt :: SelectStatement where
  "targetStmt = intervalStmt \<lparr> Target_stmt := Some ''dst'' \<rparr>"

text \<open>A raw statement (no call, no interval) with the default fill, which is null.\<close>

definition rawStmt :: SelectStatement where
  "rawStmt = intervalStmt \<lparr> GroupByInterval_stmt := Inr 0, IsRawQuery_stmt := True \<rparr>"

text \<open>The interval statement with \<open>fill(previous)\<close>.\<close>

definition previousFillStmt :: SelectStatement where
  "previousFillStmt = intervalStmt \<lparr> Fill_stmt := PreviousFill \<rparr>"

text \<open>The unbounded parent with \<open>fill(previous)\<close>; \<open>unboundedParent\<close> itself has a null fill.\<close>

definition previousFillParent :: ProcessorOptions where
  "previousFillParent = unboundedParent \<lparr> Fill := PreviousFill \<rparr>"




text \<open>
  A \<open>GroupByInterval\<close> that writes to the statement when called (here it flips the
  \<open>Dedupe\<close> flag), the other collaborators only reading.
\<close>

definition writingInterval :: Collaborators where
  "writingInterval = \<lparr> afterConditionExpr = id,
     afterGroupByInterval = (\<lambda>s. s \<lparr> Dedupe_stmt := \<not> Dedupe_stmt s \<rparr>),
     afterGroupByOffset = id, afterTimeAscending = id \<rparr>"

section \<open>Chunks and the Streaming Aggregate Transform (engine/executor)\<close>

text \<open>
  Of \<open>engine/executor\<close> only the tests are among the sources at hand
  (\<open>agg_transform_test.go\<close>). The chunk and the transform are therefore modelled from the
  spec, and the test file's fixtures, which are source, are written with the modelled
  operations exactly as the tests write them.
\<close>

subsection \<open>Chunk and column-vector\<close>

text \<open>
  Modelled from the spec: a typed value of a column-vector (spec 3: integer, float, boolean or
  string). A float64 is a rational here.
\<close>

datatype ColValue = IntegerVal int | FloatVal rat | BooleanVal bool | StringVal string

text \<open>
  Modelled from the spec: the column-vector (spec 3 and 4.1), whose implementation is not in
  the sources at hand. It holds the typed values that are present, in order, and a null bitmap
  with one bit per row (\<open>True\<close>: a value is present).
\<close>

record Column =
  Values_col :: "ColValue list"
  Nils_col :: "bool list"

text \<open>
  Modelled from the spec: the chunk (spec 3 and 4.1), whose implementation is not in the
  sources at hand: a name, tag groups with their start rows, window start rows, the time column
  and one column-vector per field. A tag set is kept as the text the tests parse it from.
\<close>

record Chunk =
  Name_chunk :: string
  Tags_chunk :: "string list"
  TagIndex :: "nat list"
  IntervalIndex :: "nat list"
  Time :: "int list"
  Columns :: "Column list"

text \<open>
  Modelled from the spec: the chunk-building operations of spec 4.1 (their code is not in the
  sources at hand). Each appends what it is given; what the spec says the arguments "must" be
  is an obligation of the caller, not a check. \<open>NewChunk n name\<close> is the empty chunk of a
  builder whose schema has \<open>n\<close> fields; \<open>onColumn i f\<close> is \<open>chunk.Column(i).f(...)\<close>.
\<close>

definition NewChunk :: "nat \<Rightarrow> string \<Rightarrow> Chunk" where
  "NewChunk n name = \<lparr> Name_chunk = name, Tags_chunk = [], TagIndex = [], IntervalIndex = [],
     Time = [], Columns = replicate n \<lparr> Values_col = [], Nils_col = [] \<rparr> \<rparr>"

definition AppendTagsAndIndexes :: "string list \<Rightarrow> nat list \<Rightarrow> Chunk \<Rightarrow> Chunk" where
  "AppendTagsAndIndexes ts rowStarts c =
     c \<lparr> Tags_chunk := Tags_chunk c @ ts, TagIndex := TagIndex c @ rowStarts \<rparr>"

definition AppendIntervalIndex :: "nat list \<Rightarrow> Chunk \<Rightarrow> Chunk" where
  "AppendIntervalIndex idxs c = c \<lparr> IntervalIndex := IntervalIndex c @ idxs \<rparr>"

definition AppendTime :: "int list \<Rightarrow> Chunk \<Rightarrow> Chunk" where
  "AppendTime ts c = c \<lparr> Time := Time c @ ts \<rparr>"

definition onColumn :: "nat \<Rightarrow> (Column \<Rightarrow> Column) \<Rightarrow> Chunk \<Rightarrow> Chunk" where
  "onColumn i f c =
     (if i < length (Columns c) then c \<lparr> Columns := (Columns c)[i := f (Columns c ! i)] \<rparr> else c)"

definition AppendIntegerValues :: "int list \<Rightarrow> Column \<Rightarrow> Column" where
  "AppendIntegerValues vs col = col \<lparr> Values_col := Values_col col @ map IntegerVal vs \<rparr>"

definition AppendFloatValues :: "rat list \<Rightarrow> Column \<Rightarrow> Column" where
  "AppendFloatValues vs col = col \<lparr> Values_col := Values_col col @ map FloatVal vs \<rparr>"

definition AppendStringValues :: "string list \<Rightarrow> Column \<Rightarrow> Column" where
  "AppendStringValues vs col = col \<lparr> Values_col := Values_col col @ map StringVal vs \<rparr>"

definition AppendBooleanValues :: "bool list \<Rightarrow> Column \<Rightarrow> Column" where
  "AppendBooleanValues vs col = col \<lparr> Values_col := Values_col col @ map BooleanVal vs \<rparr>"

definition AppendNilsV2 :: "bool list \<Rightarrow> Column \<Rightarrow> Column" where
  "AppendNilsV2 bs col = col \<lparr> Nils_col := Nils_col col @ bs \<rparr>"

definition AppendManyNotNil :: "nat \<Rightarrow> Column \<Rightarrow> Column" where
  "AppendManyNotNil n col = col \<lparr> Nils_col := Nils_col col @ replicate n True \<rparr>"

definition AppendNil :: "Column \<Rightarrow> Column" where
  "AppendNil col = col \<lparr> Nils_col := Nils_col col @ [False] \<rparr>"

text \<open>Modelled from the spec: \<open>RowNums\<close>, the total row count (spec 4.1).\<close>

definition RowNums :: "Chunk \<Rightarrow> nat" where
  "RowNums c = length (Time c)"

text \<open>
  Modelled from the spec: the rows of a column-vector (spec 3), the bitmap read against the values (\<open>None\<close> is null). A set bit with
  no value left reads as null.
\<close>

fun columnCells :: "bool list \<Rightarrow> ColValue list \<Rightarrow> ColValue option list" where
  "columnCells [] vs = []"
| "columnCells (False # bs) vs = None # columnCells bs vs"
| "columnCells (True # bs) [] = None # columnCells bs []"
| "columnCells (True # bs) (v # vs) = Some v # columnCells bs vs"

text \<open>Modelled from the spec: the column-vector (spec 3) that holds the given rows.\<close>

definition columnOf :: "ColValue option list \<Rightarrow> Column" where
  "columnOf cs = \<lparr> Values_col = List.map_filter id cs, Nils_col = map (\<lambda>c. c \<noteq> None) cs \<rparr>"

text \<open>
  Modelled from the spec: reading the cells of a row or column at an index; outside the list
  the cell is null.
\<close>

definition cellAt :: "ColValue option list \<Rightarrow> nat \<Rightarrow> ColValue option" where
  "cellAt cs i = (if i < length cs then cs ! i else None)"

subsection \<open>The rows of a stream of chunks\<close>

text \<open>
  Modelled from the spec: a chunk read row by row (spec 3), each row with what the transform
  needs of its chunk: the chunk's name, the tag set of
  the row's tag group, its time and cells, whether it is the first row of its chunk, and
  whether a window starts at it (a window boundary or a tag boundary of the chunk).
\<close>

record InRow =
  name_r :: string
  tag_r :: string
  time_r :: int
  cells_r :: "ColValue option list"
  chunkFirst :: bool
  windowFirst :: bool

definition tagAt :: "Chunk \<Rightarrow> nat \<Rightarrow> string" where
  "tagAt c i =
     (case filter (\<lambda>(j, t). j \<le> i) (zip (TagIndex c) (Tags_chunk c)) of
        [] \<Rightarrow> []
      | g # gs \<Rightarrow> snd (last (g # gs)))"

definition chunkRow :: "Chunk \<Rightarrow> nat \<Rightarrow> InRow" where
  "chunkRow c i =
     \<lparr> name_r = Name_chunk c, tag_r = tagAt c i, time_r = Time c ! i,
       cells_r = map (\<lambda>col. cellAt (columnCells (Nils_col col) (Values_col col)) i) (Columns c),
       chunkFirst = (i = 0),
       windowFirst = (i \<in> set (IntervalIndex c) \<or> i \<in> set (TagIndex c)) \<rparr>"

definition chunkRows :: "Chunk \<Rightarrow> InRow list" where
  "chunkRows c = map (chunkRow c) [0..<RowNums c]"

definition streamRows :: "Chunk list \<Rightarrow> InRow list" where
  "streamRows cs = concat (map chunkRows cs)"

subsection \<open>Windows\<close>

text \<open>
  Modelled from the spec: how the Streaming Aggregate Transform (its code is not in the sources
  at hand) partitions the rows (spec 3 and 4.3, step 1). Inside a chunk a window starts where
  the chunk's \<open>IntervalIndex\<close> or \<open>TagIndex\<close> says so. Across a chunk boundary the first
  row of the next chunk continues the open window when it has the same name and tag set and
  its computed window equals that of the row before ("two adjacent rows belong to the same
  window iff their computed windows are equal"); \<open>Window\<close> is the function of
  \<open>select.go\<close>.
\<close>

definition continuesWindow :: "ProcessorOptions \<Rightarrow> InRow \<Rightarrow> InRow \<Rightarrow> bool" where
  "continuesWindow opt r r' =
     (if chunkFirst r'
      then name_r r = name_r r' \<and> tag_r r = tag_r r' \<and> Window opt (time_r r) = Window opt (time_r r')
      else \<not> windowFirst r')"

fun groupRows :: "('a \<Rightarrow> 'a \<Rightarrow> bool) \<Rightarrow> 'a list \<Rightarrow> 'a list list" where
  "groupRows cont [] = []"
| "groupRows cont [r] = [[r]]"
| "groupRows cont (r # r' # rs) =
     (if cont r r'
      then (case groupRows cont (r' # rs) of [] \<Rightarrow> [[r]] | g # gs \<Rightarrow> (r # g) # gs)
      else [r] # groupRows cont (r' # rs))"

definition windows :: "ProcessorOptions \<Rightarrow> InRow list \<Rightarrow> InRow list list" where
  "windows opt rs = groupRows (continuesWindow opt) rs"

subsection \<open>Windowed reducers\<close>

text \<open>
  Modelled from the spec: the windowed reducers \<open>count\<close>, \<open>min\<close> and \<open>max\<close> (spec 3 and
  4.3, steps 2, 3 and 7). A reducer sees the non-null values of its source column in the
  window, in row order, and yields null when there is none. \<open>count\<close> yields an integer
  whatever the type of the column. Values are compared within their type.
\<close>

datatype AggFn = Count | Min_agg | Max_agg

fun valLess :: "ColValue \<Rightarrow> ColValue \<Rightarrow> bool" where
  "valLess (IntegerVal a) (IntegerVal b) = (a < b)"
| "valLess (FloatVal a) (FloatVal b) = (a < b)"
| "valLess (BooleanVal a) (BooleanVal b) = (\<not> a \<and> b)"
| "valLess a b = False"

fun reduceValues :: "AggFn \<Rightarrow> ColValue list \<Rightarrow> ColValue option" where
  "reduceValues f [] = None"
| "reduceValues Count (v # vs) = Some (IntegerVal (int (length (v # vs))))"
| "reduceValues Min_agg (v # vs) = Some (fold (\<lambda>x m. if valLess x m then x else m) vs v)"
| "reduceValues Max_agg (v # vs) = Some (fold (\<lambda>x m. if valLess m x then x else m) vs v)"

text \<open>Modelled from the spec: the non-null values of source column \<open>j\<close> in the rows of a window.\<close>

definition columnValues :: "nat \<Rightarrow> InRow list \<Rightarrow> ColValue list" where
  "columnValues j w = List.map_filter (\<lambda>r. cellAt (cells_r r) j) w"

text \<open>
  Modelled from the spec: a row of the output (spec 4.3, step 2): name and tag set of its group, its timestamp, and one cell per aggregate
  binding.
\<close>

record OutRow =
  name_o :: string
  tag_o :: string
  time_o :: int
  vals_o :: "ColValue option list"

text \<open>
  Modelled from the spec: the timestamp of a window's output row. For a window that lies in one
  chunk it is the time of the window's first row ("first-row time", spec 4.3, step 2). For a
  window that spans chunks the tests fix it: the output row carries the time of the first row
  of the part that lies in the chunk in which the window closes. In \<open>buildTargetChunk\<close>
  the window of the rows at times 5 (last row of the first chunk) and 6 (first row of the
  second) is stamped 6; \<open>buildDstChunkStddev\<close>, \<open>buildDstChunkAbsent\<close> and
  \<open>buildDstChunkPercentileConsecutiveMultiNullWindow\<close> stamp their spanning windows in the
  same way (11, 5 and 6).
\<close>

definition windowStamp :: "InRow list \<Rightarrow> int" where
  "windowStamp w =
     (case filter chunkFirst w of
        [] \<Rightarrow> (case w of [] \<Rightarrow> 0 | r # rs \<Rightarrow> time_r r)
      | f # fs \<Rightarrow> time_r (last (f # fs)))"

text \<open>
  Modelled from the spec: one output row per window, none for a window without a non-null
  value in any aggregated column (spec 4.3, steps 2 and 3).
\<close>

definition windowOutput :: "(AggFn \<times> nat) list \<Rightarrow> InRow list \<Rightarrow> OutRow option" where
  "windowOutput binds w =
     (let vals = map (\<lambda>(f, j). reduceValues f (columnValues j w)) binds
      in if list_all (\<lambda>v. v = None) vals then None
         else (case w of
                 [] \<Rightarrow> None
               | r # rs \<Rightarrow> Some \<lparr> name_o = name_r r, tag_o = tag_r r, time_o = windowStamp w,
                                  vals_o = vals \<rparr>))"

definition windowedRows :: "ProcessorOptions \<Rightarrow> (AggFn \<times> nat) list \<Rightarrow> Chunk list \<Rightarrow> OutRow list" where
  "windowedRows opt binds cs = List.map_filter (windowOutput binds) (windows opt (streamRows cs))"


subsection \<open>The non-windowed family: difference\<close>

text \<open>
  Modelled from the spec: \<open>difference\<close>, of the non-windowed family (spec 3 and 4.3, step 4),
  as far as the spec and the fixtures of the tests fix it. The reducer keeps the preceding
  non-null value and its time; state carries across windows and chunks and is reset where the
  name or the tag set changes. A non-null value after a kept one yields their difference at
  the row's time; the first value of a series yields nothing, and neither does a value whose
  time equals that of the kept one (\<open>TestStreamAggregateTransformDifferenceForDuplicatedTime\<close>).
  A row is put out when at least one reducer yields a value
  (\<open>buildDstChunkDifferenceNullWindow\<close>). Float differences are exact here.
\<close>

datatype SeriesFn = Difference

fun valDiff :: "ColValue \<Rightarrow> ColValue \<Rightarrow> ColValue option" where
  "valDiff (IntegerVal a) (IntegerVal b) = Some (IntegerVal (sub64 a b))"
| "valDiff (FloatVal a) (FloatVal b) = Some (FloatVal (a - b))"
| "valDiff a b = None"

definition differenceStep ::
  "int \<Rightarrow> ColValue option \<Rightarrow> (ColValue \<times> int) option \<Rightarrow> (ColValue \<times> int) option \<times> ColValue option" where
  "differenceStep t cell prev =
     (case cell of
        None \<Rightarrow> (prev, None)
      | Some v \<Rightarrow>
         (case prev of
            None \<Rightarrow> (Some (v, t), None)
          | Some (pv, pt) \<Rightarrow> (if pt = t then (prev, None) else (Some (v, t), valDiff v pv))))"

text \<open>
  Modelled from the spec: one row through all bindings (the new states and the cells of the
  output row), and the loop over the rows of the stream, which resets the states where the
  name or the tag set changes (spec 4.3, step 4).
\<close>

definition seriesStep ::
  "(SeriesFn \<times> nat) list \<Rightarrow> InRow \<Rightarrow> (ColValue \<times> int) option list \<Rightarrow>
   (ColValue \<times> int) option list \<times> ColValue option list" where
  "seriesStep binds r states =
     (let steps = map (\<lambda>((f, j), s). differenceStep (time_r r) (cellAt (cells_r r) j) s)
                    (zip binds states)
      in (map fst steps, map snd steps))"

fun seriesLoop ::
  "(SeriesFn \<times> nat) list \<Rightarrow> (string \<times> string) option \<Rightarrow> (ColValue \<times> int) option list \<Rightarrow>
   InRow list \<Rightarrow> OutRow list" where
  "seriesLoop binds grp states [] = []"
| "seriesLoop binds grp states (r # rs) =
     (let states0 = (if grp = Some (name_r r, tag_r r) then states
                     else replicate (length binds) None);
          (states1, vals) = seriesStep binds r states0;
          rest = seriesLoop binds (Some (name_r r, tag_r r)) states1 rs
      in if list_all (\<lambda>v. v = None) vals then rest
         else \<lparr> name_o = name_r r, tag_o = tag_r r, time_o = time_r r, vals_o = vals \<rparr> # rest)"

definition seriesRowsOut :: "(SeriesFn \<times> nat) list \<Rightarrow> Chunk list \<Rightarrow> OutRow list" where
  "seriesRowsOut binds cs = seriesLoop binds None (replicate (length binds) None) (streamRows cs)"

subsection \<open>Output chunks\<close>

text \<open>
  Modelled from the spec: the destination chunks (spec 4.3, step 6 and the ordering rules).
  Rows are appended to the destination chunk; it is flushed when it holds \<open>ChunkSize\<close> rows,
  and before a row of another name, and at the end of the input if it holds any row.
\<close>

definition addRow :: "nat \<Rightarrow> OutRow \<Rightarrow> OutRow list list \<times> OutRow list \<Rightarrow> OutRow list list \<times> OutRow list" where
  "addRow n r acc =
     (let (flushed, cur) = acc;
          (flushed1, cur1) = (case cur of
                                [] \<Rightarrow> (flushed, cur)
                              | c # cs \<Rightarrow> if name_o c \<noteq> name_o r then (flushed @ [cur], [])
                                         else (flushed, cur));
          cur2 = cur1 @ [r]
      in if length cur2 \<ge> n then (flushed1 @ [cur2], []) else (flushed1, cur2))"

definition flushRows :: "nat \<Rightarrow> OutRow list \<Rightarrow> OutRow list list" where
  "flushRows n rs =
     (let (flushed, cur) = fold (addRow n) rs ([], [])
      in if cur = [] then flushed else flushed @ [cur])"

text \<open>
  Modelled from the spec: the rows of a destination chunk at which a tag group starts (spec 3:
  tag groups are contiguous row ranges sharing the same tag set).
\<close>

definition tagStarts :: "OutRow list \<Rightarrow> nat list" where
  "tagStarts rs = filter (\<lambda>i. i = 0 \<or> tag_o (rs ! i) \<noteq> tag_o (rs ! (i - 1))) [0..<length rs]"

text \<open>
  Modelled from the spec: a destination chunk of \<open>n\<close> columns from its rows. In windowed mode every row is a window;
  for the non-windowed family window boundaries are ignored and the window index is the tag
  index.
\<close>

definition outChunk :: "bool \<Rightarrow> nat \<Rightarrow> OutRow list \<Rightarrow> Chunk" where
  "outChunk windowed n rs =
     \<lparr> Name_chunk = (case rs of [] \<Rightarrow> [] | r # rs' \<Rightarrow> name_o r),
       Tags_chunk = map (\<lambda>i. tag_o (rs ! i)) (tagStarts rs),
       TagIndex = tagStarts rs,
       IntervalIndex = (if windowed then [0..<length rs] else tagStarts rs),
       Time = map time_o rs,
       Columns = map (\<lambda>j. columnOf (map (\<lambda>r. cellAt (vals_o r) j) rs)) [0..<n] \<rparr>"

subsection \<open>The transform\<close>

text \<open>
  Modelled from the spec: the Streaming Aggregate Transform on the whole input stream (spec
  4.3; its code is not in the sources at hand). The aggregate bindings pair a reducer with
  the index of its source column; the destination column is the binding's position. All
  bindings of a transform are of one family. A chunk size that is not positive fails at
  construction.
\<close>

datatype Aggregates = Windowed "(AggFn \<times> nat) list" | Series "(SeriesFn \<times> nat) list"

datatype TransformError = BadChunkSize

definition StreamAggregateTransform ::
  "ProcessorOptions \<Rightarrow> Aggregates \<Rightarrow> Chunk list \<Rightarrow> TransformError + Chunk list" where
  "StreamAggregateTransform opt aggs cs =
     (if ChunkSize opt \<le> 0 then Inl BadChunkSize
      else (case aggs of
              Windowed binds \<Rightarrow>
                Inr (map (outChunk True (length binds))
                       (flushRows (nat (ChunkSize opt)) (windowedRows opt binds cs)))
            | Series binds \<Rightarrow>
                Inr (map (outChunk False (length binds))
                       (flushRows (nat (ChunkSize opt)) (seriesRowsOut binds cs)))))"


subsection \<open>Fixtures of agg\_transform\_test.go\<close>

text \<open>\<open>buildSourceChunk1\<close>, \<open>buildSourceChunk2\<close> and \<open>buildTargetChunk\<close> (lines 550-624).\<close>

definition buildSourceChunk1 :: Chunk where
  "buildSourceChunk1 =
    (let chunk = NewChunk 2 ''mst'';
         chunk = AppendTagsAndIndexes [''name=aaa'', ''name=bbb'', ''name=ccc''] [0, 2, 4] chunk;
         chunk = AppendIntervalIndex [0, 2, 3, 4] chunk;
         chunk = AppendTime [1, 2, 3, 4, 5] chunk;
         chunk = onColumn 0 (AppendIntegerValues [1, 2, 3, 4, 5]) chunk;
         chunk = onColumn 0 (AppendManyNotNil 5) chunk;
         chunk = onColumn 1 (AppendFloatValues [1.1, 2.2, 3.3, 4.4, 5.5]) chunk;
         chunk = onColumn 1 (AppendManyNotNil 5) chunk
     in chunk)"

definition buildSourceChunk2 :: Chunk where
  "buildSourceChunk2 =
    (let chunk = NewChunk 2 ''mst'';
         chunk = AppendTagsAndIndexes [''name=ccc'', ''name=ddd'', ''name=eee''] [0, 1, 3] chunk;
         chunk = AppendIntervalIndex [0, 1, 2, 3] chunk;
         chunk = AppendTime [6, 7, 8, 9, 10] chunk;
         chunk = onColumn 0 (AppendIntegerValues [6, 7, 8, 9, 10]) chunk;
         chunk = onColumn 0 (AppendManyNotNil 5) chunk;
         chunk = onColumn 1 (AppendFloatValues [6.6, 7.7, 8.8, 9.9, 10.1]) chunk;
         chunk = onColumn 1 (AppendManyNotNil 5) chunk
     in chunk)"


text \<open>\<open>buildTargetChunkMinMax\<close> (lines 1061-1083).\<close>

definition buildTargetChunkMinMax :: Chunk where
  "buildTargetChunkMinMax =
    (let chunk = NewChunk 2 ''mst'';
         chunk = AppendTagsAndIndexes
                   [''name=aaa'', ''name=bbb'', ''name=ccc'', ''name=ddd'', ''name=eee'']
                   [0, 1, 3, 4, 6] chunk;
         chunk = AppendIntervalIndex [0, 1, 2, 3, 4, 5, 6] chunk;
         chunk = AppendTime [1, 3, 4, 6, 7, 8, 9] chunk;
         chunk = onColumn 0 (AppendIntegerValues [1, 3, 4, 5, 7, 8, 9]) chunk;
         chunk = onColumn 0 (AppendManyNotNil 7) chunk;
         chunk = onColumn 1 (AppendFloatValues [2.2, 3.3, 4.4, 6.6, 7.7, 8.8, 10.1]) chunk;
         chunk = onColumn 1 (AppendManyNotNil 7) chunk
     in chunk)"


definition countMinOptions :: ProcessorOptions where
  "countMinOptions = zeroOptions \<lparr> Dimensions := [''name''],
     Interval := \<lparr> Duration = 4, Offset = 0 \<rparr>, Ordered := True, Ascending := True,
     ChunkSize := 10 \<rparr>"

text \<open>
  The bindings of \<open>TestStreamAggregateTransform_Multi_Min_Integer_Max_Float\<close>, which runs
  on the same source chunks with the same options.
\<close>

definition minMaxBindings :: Aggregates where
  "minMaxBindings = Windowed [(Min_agg, 0), (Max_agg, 1)]"


text \<open>\<open>buildSrcNullChunks\<close> and \<open>buildDstNullChunksForCount\<close> (lines 4131-4219).\<close>

definition buildSrcNullChunks :: "Chunk list" where
  "buildSrcNullChunks =
    (let ck1 = NewChunk 4 ''mst'';
         ck1 = AppendTagsAndIndexes [''tk=tv''] [0] ck1;
         ck1 = AppendIntervalIndex [0, 1, 2] ck1;
         ck1 = AppendTime [1, 2, 3] ck1;
         ck1 = onColumn 0 (AppendIntegerValues [2]) ck1;
         ck1 = onColumn 0 (AppendNilsV2 [False, True, False]) ck1;
         ck1 = onColumn 1 (AppendFloatValues [1.1, 3.3]) ck1;
         ck1 = onColumn 1 (AppendNilsV2 [True, False, True]) ck1;
         ck1 = onColumn 2 (AppendStringValues [''a'']) ck1;
         ck1 = onColumn 2 (AppendNilsV2 [False, True, False]) ck1;
         ck1 = onColumn 3 (AppendBooleanValues [True, True]) ck1;
         ck1 = onColumn 3 (AppendNilsV2 [True, False, True]) ck1;
         ck2 = NewChunk 4 ''mst'';
         ck2 = AppendTagsAndIndexes [''tk=tv''] [0] ck2;
         ck2 = AppendIntervalIndex [0, 1, 2] ck2;
         ck2 = AppendTime [3, 4, 5] ck2;
         ck2 = onColumn 0 (AppendIntegerValues [3, 5]) ck2;
         ck2 = onColumn 0 (AppendNilsV2 [True, False, True]) ck2;
         ck2 = onColumn 1 (AppendFloatValues [4.4]) ck2;
         ck2 = onColumn 1 (AppendNilsV2 [False, True, False]) ck2;
         ck2 = onColumn 2 (AppendStringValues [''c'', ''d'']) ck2;
         ck2 = onColumn 2 (AppendNilsV2 [True, False, True]) ck2;
         ck2 = onColumn 3 (AppendBooleanValues [True]) ck2;
         ck2 = onColumn 3 (AppendNilsV2 [False, True, False]) ck2
     in [ck1, ck2])"

definition buildDstNullChunksForCount :: "Chunk list" where
  "buildDstNullChunksForCount =
    (let ck1 = NewChunk 4 ''mst'';
         ck1 = AppendTagsAndIndexes [''tk=tv''] [0] ck1;
         ck1 = AppendIntervalIndex [0, 1, 2, 3, 4] ck1;
         ck1 = AppendTime [1, 2, 3, 4, 5] ck1;
         ck1 = onColumn 0 (AppendIntegerValues [1, 1, 1]) ck1;
         ck1 = onColumn 0 (AppendNilsV2 [False, True, True, False, True]) ck1;
         ck1 = onColumn 1 (AppendIntegerValues [1, 1, 1]) ck1;
         ck1 = onColumn 1 (AppendNilsV2 [True, False, True, True, False]) ck1;
         ck1 = onColumn 2 (AppendIntegerValues [1, 1, 1]) ck1;
         ck1 = onColumn 2 (AppendNilsV2 [False, True, True, False, True]) ck1;
         ck1 = onColumn 3 (AppendIntegerValues [1, 1, 1]) ck1;
         ck1 = onColumn 3 (AppendNilsV2 [True, False, True, True, False]) ck1
     in [ck1])"

text \<open>
  The bindings and options of \<open>TestStreamAggregateTransformNullForCount\<close>: four counts, over
  an integer, a float, a string and a boolean column; interval 1ns, chunk size 6.
\<close>

definition fourCountBindings :: Aggregates where
  "fourCountBindings = Windowed [(Count, 0), (Count, 1), (Count, 2), (Count, 3)]"

definition fourCountOptions :: ProcessorOptions where
  "fourCountOptions = zeroOptions \<lparr> Dimensions := [''country''],
     Interval := \<lparr> Duration = 1, Offset = 0 \<rparr>, ChunkSize := 6 \<rparr>"





text \<open>The first window of the null-count fixture: the single row at time 1.\<close>

definition firstNullCountWindow :: "InRow list" where
  "firstNullCountWindow = hd (windows fourCountOptions (streamRows buildSrcNullChunks))"


section \<open>Properties of the options builder\<close>

lemma wrap64_id: "in_int64 x \<Longrightarrow> wrap64 x = x"
  by (simp add: in_int64_def wrap64_def MinInt64_def MaxInt64_def)

lemma NewProcessorOptionsStmt_fields:
  assumes "NewProcessorOptionsStmt stmt sopt = (opt, None)"
  shows "Fill opt = (if Fill_stmt stmt = NullFill \<and> Target_stmt stmt \<noteq> None then NoFill else Fill_stmt stmt)"
    and "SLimit opt = SLimit_stmt stmt" and "SOffset opt = SOffset_stmt stmt"
  using assms
  by (auto simp: NewProcessorOptionsStmt_def Let_def split: sum.splits prod.splits if_splits)

lemma clampToParent_fields:
  "Fill (clampToParent opt s) = Fill s" "SLimit (clampToParent opt s) = SLimit s"
  "SOffset (clampToParent opt s) = SOffset s" "Interval (clampToParent opt s) = Interval s"
  by (simp_all add: clampToParent_def Let_def)

lemma clampToParent_times:
  "StartTime opt \<le> StartTime (clampToParent opt s)" "EndTime (clampToParent opt s) \<le> EndTime opt"
  by (simp_all add: clampToParent_def Let_def)

lemma endAtNow_fields:
  "Fill (endAtNow now s) = Fill s" "SLimit (endAtNow now s) = SLimit s"
  "SOffset (endAtNow now s) = SOffset s" "StartTime (endAtNow now s) = StartTime s"
  by (simp_all add: endAtNow_def split: option.splits)

lemma endAtNow_EndTime:
  assumes "EndTime s \<le> e" and "\<forall>n. now = Some n \<longrightarrow> n \<le> MaxTime"
  shows "EndTime (endAtNow now s) \<le> e"
  using assms by (auto simp add: endAtNow_def split: option.splits)

lemma propagateDimensions_fields:
  "Fill (propagateDimensions opt s) = Fill s" "SLimit (propagateDimensions opt s) = SLimit s"
  "SOffset (propagateDimensions opt s) = SOffset s" "StartTime (propagateDimensions opt s) = StartTime s"
  "EndTime (propagateDimensions opt s) = EndTime s"
  by (simp_all add: propagateDimensions_def)

lemma constrainTime_fields:
  "Fill (constrainTime opt c t s) = Fill s" "SLimit (constrainTime opt c t s) = SLimit s"
  "SOffset (constrainTime opt c t s) = SOffset s"
  by (simp_all add: constrainTime_def Let_def)

lemma constrainTime_times:
  "StartTime opt \<le> StartTime s \<Longrightarrow> StartTime opt \<le> StartTime (constrainTime opt c t s)"
  "EndTime s \<le> EndTime opt \<Longrightarrow> EndTime (constrainTime opt c t s) \<le> EndTime opt"
  by (simp_all add: constrainTime_def Let_def)

lemma propagateLimits_fields:
  "Fill (propagateLimits opt s) = Fill s" "SLimit (propagateLimits opt s) = add64 (SLimit s) (SLimit opt)"
  "SOffset (propagateLimits opt s) = add64 (SOffset s) (SOffset opt)" "StartTime (propagateLimits opt s) = StartTime s"
  "EndTime (propagateLimits opt s) = EndTime s" "Ascending (propagateLimits opt s) = Ascending opt"
  by (simp_all add: propagateLimits_def)

lemma stripNullFill_fields:
  "Fill (stripNullFill stmt opt s) = (if \<not> IsRawQuery_stmt stmt \<and> Fill s = NullFill then NoFill else Fill s)"
  "SLimit (stripNullFill stmt opt s) = SLimit s"
  "SOffset (stripNullFill stmt opt s) = SOffset s" "StartTime (stripNullFill stmt opt s) = StartTime s"
  "EndTime (stripNullFill stmt opt s) = EndTime s" "Ascending (stripNullFill stmt opt s) = Ascending s"
  by (simp_all add: stripNullFill_def Let_def)

lemmas substatement_fields =
  clampToParent_fields endAtNow_fields propagateDimensions_fields constrainTime_fields
  propagateLimits_fields stripNullFill_fields

lemma substatement_unfold:
  assumes "newProcessorOptionsSubstatement now stmt opt = (subOpt, None)"
  shows "\<exists>subOpt0 cond t (interval :: int).
    NewProcessorOptionsStmt stmt
       (zeroSelectOptions \<lparr> Authorizer_sopt := Authorizer opt, MaxSeriesN_sopt := MaxSeriesN opt \<rparr>) = (subOpt0, None) \<and>
    subOpt = (let s = stripNullFill stmt opt (propagateLimits opt (constrainTime opt cond t
                 (propagateDimensions opt (endAtNow now (clampToParent opt subOpt0)))))
               in if interval = 0 then s \<lparr> Interval := Interval opt \<rparr> else s)"
proof -
  obtain subOpt0 e where a: "NewProcessorOptionsStmt stmt
       (zeroSelectOptions \<lparr> Authorizer_sopt := Authorizer opt, MaxSeriesN_sopt := MaxSeriesN opt \<rparr>) = (subOpt0, e)"
    by (cases "NewProcessorOptionsStmt stmt
       (zeroSelectOptions \<lparr> Authorizer_sopt := Authorizer opt, MaxSeriesN_sopt := MaxSeriesN opt \<rparr>)") auto
  have e: "e = None" using assms a
    by (cases e) (simp_all add: newProcessorOptionsSubstatement_def)
  obtain cond t where c: "ConditionExpr_stmt stmt = Inr (cond, t)"
    using assms a e
    by (cases "ConditionExpr_stmt stmt") (auto simp add: newProcessorOptionsSubstatement_def)
  obtain interval where g: "GroupByInterval_stmt stmt = Inr interval"
    using assms a e c
    by (cases "GroupByInterval_stmt stmt") (auto simp add: newProcessorOptionsSubstatement_def)
  have "subOpt = (let s = stripNullFill stmt opt (propagateLimits opt (constrainTime opt cond t
                 (propagateDimensions opt (endAtNow now (clampToParent opt subOpt0)))))
               in if interval = 0 then s \<lparr> Interval := Interval opt \<rparr> else s)"
    using assms a e c g
    by (cases "interval = 0") (simp_all add: newProcessorOptionsSubstatement_def)
  then show ?thesis using a e by blast
qed

lemma NewProcessorOptionsStmt_succeeds:
  assumes "ConditionExpr_stmt stmt = Inr (cond, tr)" and "GroupByInterval_stmt stmt = Inr i"
    and "i \<le> 0 \<or> GroupByOffset_stmt stmt = Inr off"
  shows "snd (NewProcessorOptionsStmt stmt sopt) = None"
  using assms
  by (auto simp add: NewProcessorOptionsStmt_def Let_def split: prod.splits)

lemma substatement_succeeds:
  assumes "ConditionExpr_stmt stmt = Inr (cond, tr)" and "GroupByInterval_stmt stmt = Inr i"
    and "i \<le> 0 \<or> GroupByOffset_stmt stmt = Inr off"
  shows "snd (newProcessorOptionsSubstatement now stmt opt) = None"
proof -
  obtain subOpt0 where a: "NewProcessorOptionsStmt stmt
       (zeroSelectOptions \<lparr> Authorizer_sopt := Authorizer opt, MaxSeriesN_sopt := MaxSeriesN opt \<rparr>) = (subOpt0, None)"
    using NewProcessorOptionsStmt_succeeds[OF assms]
    by (metis prod.collapse)
  show ?thesis
    using a assms(1,2)
    by (cases "i = 0") (simp_all add: newProcessorOptionsSubstatement_def)
qed

text \<open>
  Claim C7, as stated, fails: no fill is inherited. \<open>newProcessorOptionsSubstatement\<close> tests
  the fill that \<open>NewProcessorOptionsStmt\<close> took from the statement itself and never reads
  the parent's. A subquery that is not raw and has a null fill of its own gets fill none under
  a parent with \<open>fill(previous)\<close>, where there is no null fill to inherit and no target; and
  a subquery with \<open>fill(previous)\<close> keeps it under a parent whose fill is null.
\<close>

theorem inherited_fill_counterexample:
  "Fill previousFillParent = PreviousFill \<and>
   Fill_stmt intervalStmt = NullFill \<and> Target_stmt intervalStmt = None \<and>
   \<not> IsRawQuery_stmt intervalStmt \<and>
   snd (newProcessorOptionsSubstatement None intervalStmt previousFillParent) = None \<and>
   Fill (fst (newProcessorOptionsSubstatement None intervalStmt previousFillParent)) = NoFill \<and>
   Fill unboundedParent = NullFill \<and> Fill_stmt previousFillStmt = PreviousFill \<and>
   \<not> IsRawQuery_stmt previousFillStmt \<and>
   snd (newProcessorOptionsSubstatement None previousFillStmt unboundedParent) = None \<and>
   Fill (fst (newProcessorOptionsSubstatement None previousFillStmt unboundedParent)) = PreviousFill"
  by (simp add: newProcessorOptionsSubstatement_def NewProcessorOptionsStmt_def intervalStmt_def
        previousFillStmt_def previousFillParent_def unboundedParent_def zeroOptions_def
        zeroSelectOptions_def clampToParent_def endAtNow_def propagateDimensions_def
        constrainTime_def propagateLimits_def stripNullFill_def IsZero_def MaxTime_def
        MinTime_def Let_def split: prod.splits)

text \<open>
  Claim C7, amended. When options are built, a null fill is replaced by fill none in exactly
  two cases: (a) the statement has a target (\<open>stmt.Target\<close> is set), and (b) the statement
  is a subquery that is not raw and whose own fill is null; the parent's fill is never read.
  In every other case the statement's fill option is kept as it is. Building succeeds whenever
  the condition and the interval of the statement can be evaluated (and the offset, for a
  positive interval), whatever the target and the fill are.
\<close>

theorem null_fill_becomes_none_in_two_cases:
  assumes "ConditionExpr_stmt stmt = Inr (cond, tr)" and "GroupByInterval_stmt stmt = Inr i"
    and "i \<le> 0 \<or> GroupByOffset_stmt stmt = Inr off"
  shows "snd (NewProcessorOptionsStmt stmt sopt) = None \<and>
         Fill (fst (NewProcessorOptionsStmt stmt sopt)) =
           (if Fill_stmt stmt = NullFill \<and> Target_stmt stmt \<noteq> None
            then NoFill else Fill_stmt stmt) \<and>
         snd (newProcessorOptionsSubstatement now stmt parent) = None \<and>
         Fill (fst (newProcessorOptionsSubstatement now stmt parent)) =
           (if Fill_stmt stmt = NullFill \<and>
               (Target_stmt stmt \<noteq> None \<or> \<not> IsRawQuery_stmt stmt)
            then NoFill else Fill_stmt stmt)"
proof -
  have t: "snd (NewProcessorOptionsStmt stmt sopt) = None"
    by (rule NewProcessorOptionsStmt_succeeds[OF assms])
  then have "NewProcessorOptionsStmt stmt sopt = (fst (NewProcessorOptionsStmt stmt sopt), None)"
    by (metis prod.collapse)
  then have tf: "Fill (fst (NewProcessorOptionsStmt stmt sopt)) =
           (if Fill_stmt stmt = NullFill \<and> Target_stmt stmt \<noteq> None
            then NoFill else Fill_stmt stmt)"
    by (rule NewProcessorOptionsStmt_fields(1))
  have s: "snd (newProcessorOptionsSubstatement now stmt parent) = None"
    by (rule substatement_succeeds[OF assms])
  then have "newProcessorOptionsSubstatement now stmt parent =
               (fst (newProcessorOptionsSubstatement now stmt parent), None)"
    by (metis prod.collapse)
  then obtain subOpt0 c t and interval :: int where
    a: "NewProcessorOptionsStmt stmt
       (zeroSelectOptions \<lparr> Authorizer_sopt := Authorizer parent, MaxSeriesN_sopt := MaxSeriesN parent \<rparr>) = (subOpt0, None)"
    and u: "fst (newProcessorOptionsSubstatement now stmt parent) =
              (let s = stripNullFill stmt parent (propagateLimits parent (constrainTime parent c t
                 (propagateDimensions parent (endAtNow now (clampToParent parent subOpt0)))))
               in if interval = 0 then s \<lparr> Interval := Interval parent \<rparr> else s)"
    using substatement_unfold by blast
  have sf: "Fill (fst (newProcessorOptionsSubstatement now stmt parent)) =
           (if Fill_stmt stmt = NullFill \<and>
               (Target_stmt stmt \<noteq> None \<or> \<not> IsRawQuery_stmt stmt)
            then NoFill else Fill_stmt stmt)"
    unfolding u using NewProcessorOptionsStmt_fields(1)[OF a]
    by (cases "interval = 0") (simp_all add: Let_def substatement_fields)
  show ?thesis using t tf s sf by simp
qed

text \<open>
  Witness for C7: both cases and what is kept. With a target a null fill becomes none in a
  top-level query; without one it stays null there, and in a raw subquery; a subquery that is
  not raw loses it whatever the parent's fill; \<open>fill(previous)\<close> is kept.
\<close>

theorem null_fill_becomes_none_witness:
  "Fill_stmt targetStmt = NullFill \<and> Target_stmt targetStmt = Some ''dst'' \<and>
   snd (NewProcessorOptionsStmt targetStmt zeroSelectOptions) = None \<and>
   Fill (fst (NewProcessorOptionsStmt targetStmt zeroSelectOptions)) = NoFill \<and>
   snd (NewProcessorOptionsStmt intervalStmt zeroSelectOptions) = None \<and>
   Fill (fst (NewProcessorOptionsStmt intervalStmt zeroSelectOptions)) = NullFill \<and>
   snd (newProcessorOptionsSubstatement None rawStmt unboundedParent) = None \<and>
   Fill (fst (newProcessorOptionsSubstatement None rawStmt unboundedParent)) = NullFill \<and>
   snd (newProcessorOptionsSubstatement None intervalStmt previousFillParent) = None \<and>
   Fill (fst (newProcessorOptionsSubstatement None intervalStmt previousFillParent)) = NoFill \<and>
   snd (newProcessorOptionsSubstatement None previousFillStmt unboundedParent) = None \<and>
   Fill (fst (newProcessorOptionsSubstatement None previousFillStmt unboundedParent)) = PreviousFill"
proof -
  have c: "ConditionExpr_stmt targetStmt = Inr ([], \<lparr> Min_tr = None, Max_tr = None \<rparr>)"
    "ConditionExpr_stmt intervalStmt = Inr ([], \<lparr> Min_tr = None, Max_tr = None \<rparr>)"
    "ConditionExpr_stmt rawStmt = Inr ([], \<lparr> Min_tr = None, Max_tr = None \<rparr>)"
    "ConditionExpr_stmt previousFillStmt = Inr ([], \<lparr> Min_tr = None, Max_tr = None \<rparr>)"
    by (simp_all add: targetStmt_def rawStmt_def previousFillStmt_def intervalStmt_def)
  have g: "GroupByInterval_stmt targetStmt = Inr 10" "GroupByInterval_stmt intervalStmt = Inr 10"
    "GroupByInterval_stmt rawStmt = Inr 0" "GroupByInterval_stmt previousFillStmt = Inr 10"
    by (simp_all add: targetStmt_def rawStmt_def previousFillStmt_def intervalStmt_def)
  have o: "(10 :: int) \<le> 0 \<or> GroupByOffset_stmt targetStmt = Inr 0"
    "(10 :: int) \<le> 0 \<or> GroupByOffset_stmt intervalStmt = Inr 0"
    "(0 :: int) \<le> 0 \<or> GroupByOffset_stmt rawStmt = Inr 0"
    "(10 :: int) \<le> 0 \<or> GroupByOffset_stmt previousFillStmt = Inr 0"
    by (simp_all add: targetStmt_def rawStmt_def previousFillStmt_def intervalStmt_def)
  show ?thesis
    using null_fill_becomes_none_in_two_cases
            [OF c(1) g(1) o(1), of zeroSelectOptions None unboundedParent]
          null_fill_becomes_none_in_two_cases
            [OF c(2) g(2) o(2), of zeroSelectOptions None previousFillParent]
          null_fill_becomes_none_in_two_cases
            [OF c(3) g(3) o(3), of zeroSelectOptions None unboundedParent]
          null_fill_becomes_none_in_two_cases
            [OF c(4) g(4) o(4), of zeroSelectOptions None unboundedParent]
    by (simp add: targetStmt_def rawStmt_def previousFillStmt_def intervalStmt_def)
qed


text \<open>
  The store is not idle: a \<open>GroupByInterval\<close> that writes to the statement shows in the
  statement the builder hands back.
\<close>

lemma store_shows_a_write:
  "snd (NewProcessorOptionsStmt_store writingInterval intervalStmt zeroSelectOptions) \<noteq> intervalStmt"
  by (simp add: NewProcessorOptionsStmt_store_def writingInterval_def intervalStmt_def Let_def
        split: prod.splits)



text \<open>
  Claim C6, as stated, fails: the child's end time can exceed the parent's. A subquery with an
  interval and no upper bound under a parent that ends at \<open>MaxTime\<close> takes its end time
  from the context's \<open>now\<close>, whatever that is; at the last representable instant
  (\<open>UnixNano() = 9223372036854775807\<close>) the child ends one nanosecond after its parent.
\<close>

theorem substatement_end_time_counterexample:
  "snd (newProcessorOptionsSubstatement (Some 9223372036854775807) intervalStmt unboundedParent) = None \<and>
   EndTime (fst (newProcessorOptionsSubstatement (Some 9223372036854775807) intervalStmt unboundedParent))
     = 9223372036854775807 \<and>
   EndTime unboundedParent = 9223372036854775806 \<and>
   \<not> EndTime (fst (newProcessorOptionsSubstatement (Some 9223372036854775807) intervalStmt unboundedParent))
       \<le> EndTime unboundedParent"
  by (simp add: newProcessorOptionsSubstatement_def NewProcessorOptionsStmt_def intervalStmt_def
        unboundedParent_def zeroOptions_def zeroSelectOptions_def clampToParent_def endAtNow_def
        propagateDimensions_def constrainTime_def propagateLimits_def stripNullFill_def
        IsZero_def MaxTime_def MinTime_def Let_def split: prod.splits)

text \<open>
  Claim C6, amended. Provided the context's \<open>now\<close>, when present, is not later than
  \<open>MaxTime\<close>, every derived child has a start time no earlier and an end time no later than
  the parent's, its SLIMIT and SOFFSET are the sums (in Go's \<open>int\<close> arithmetic) of the
  statement's and the parent's values, and it has the parent's ordering.
\<close>

theorem substatement_inherits_from_parent:
  assumes "newProcessorOptionsSubstatement now stmt opt = (subOpt, None)"
    and "\<forall>n. now = Some n \<longrightarrow> n \<le> MaxTime"
  shows "StartTime opt \<le> StartTime subOpt \<and> EndTime subOpt \<le> EndTime opt \<and>
         SLimit subOpt = add64 (SLimit_stmt stmt) (SLimit opt) \<and>
         SOffset subOpt = add64 (SOffset_stmt stmt) (SOffset opt) \<and>
         Ascending subOpt = Ascending opt"
proof -
  from assms(1) obtain subOpt0 cond t and interval :: int where
    a: "NewProcessorOptionsStmt stmt
       (zeroSelectOptions \<lparr> Authorizer_sopt := Authorizer opt, MaxSeriesN_sopt := MaxSeriesN opt \<rparr>) = (subOpt0, None)"
    and s: "subOpt = (let s = stripNullFill stmt opt (propagateLimits opt (constrainTime opt cond t
                 (propagateDimensions opt (endAtNow now (clampToParent opt subOpt0)))))
               in if interval = 0 then s \<lparr> Interval := Interval opt \<rparr> else s)"
    using substatement_unfold by blast
  define s1 where "s1 = propagateDimensions opt (endAtNow now (clampToParent opt subOpt0))"
  have st1: "StartTime opt \<le> StartTime s1"
    by (simp add: s1_def clampToParent_times substatement_fields)
  have en1: "EndTime s1 \<le> EndTime opt"
    using endAtNow_EndTime[OF clampToParent_times(2) assms(2)]
    by (simp add: s1_def substatement_fields)
  have st: "StartTime opt \<le> StartTime (constrainTime opt cond t s1)"
    and en: "EndTime (constrainTime opt cond t s1) \<le> EndTime opt"
    using st1 en1 by (simp_all add: constrainTime_times)
  show ?thesis
    unfolding s s1_def[symmetric]
    using st en NewProcessorOptionsStmt_fields(2,3)[OF a]
    by (cases "interval = 0") (simp_all add: Let_def s1_def substatement_fields)
qed

text \<open>Witness for C6: the interval statement under an unbounded parent, \<open>now\<close> in 2023.\<close>

theorem substatement_inherits_witness:
  "newProcessorOptionsSubstatement (Some 1700000000000000000) intervalStmt unboundedParent =
     (fst (newProcessorOptionsSubstatement (Some 1700000000000000000) intervalStmt unboundedParent), None) \<and>
   (1700000000000000000 :: int) \<le> MaxTime \<and>
   EndTime (fst (newProcessorOptionsSubstatement (Some 1700000000000000000) intervalStmt unboundedParent))
     \<le> EndTime unboundedParent \<and>
   SLimit (fst (newProcessorOptionsSubstatement (Some 1700000000000000000) intervalStmt unboundedParent)) = 5 \<and>
   SOffset (fst (newProcessorOptionsSubstatement (Some 1700000000000000000) intervalStmt unboundedParent)) = 5 \<and>
   Ascending (fst (newProcessorOptionsSubstatement (Some 1700000000000000000) intervalStmt unboundedParent)) = False"
proof -
  have a: "newProcessorOptionsSubstatement (Some 1700000000000000000) intervalStmt unboundedParent =
     (fst (newProcessorOptionsSubstatement (Some 1700000000000000000) intervalStmt unboundedParent), None)"
    by (simp add: newProcessorOptionsSubstatement_def NewProcessorOptionsStmt_def intervalStmt_def
          Let_def split: prod.splits)
  have b: "\<forall>n. Some (1700000000000000000 :: int) = Some n \<longrightarrow> n \<le> MaxTime"
    by (simp add: MaxTime_def)
  show ?thesis
    using a b substatement_inherits_from_parent [OF a b]
    by (simp add: intervalStmt_def unboundedParent_def zeroOptions_def add64_def wrap64_def
          MaxTime_def)
qed

section \<open>Properties of \<open>Window\<close>\<close>

lemma go_rem_floor:
  fixes a D :: int
  assumes "0 < D"
  shows "(if a smod D < 0 then a smod D + D else a smod D) = a mod D"
proof -
  have "0 \<le> a mod D" "a mod D < D" using assms by simp_all
  moreover have "a mod D \<noteq> 0" if "\<not> D dvd a"
    using that by (simp add: mod_eq_0_iff_dvd)
  ultimately show ?thesis
    by (cases "D dvd a") (auto simp add: signed_modulo_int_eq_modulo_int)
qed

lemma go_rem_range:
  fixes a D :: int
  assumes "0 < D"
  shows "- D < a smod D" "a smod D < D"
proof -
  have "0 \<le> a mod D" "a mod D < D" using assms by simp_all
  moreover have "a mod D \<noteq> 0" if "\<not> D dvd a"
    using that by (simp add: mod_eq_0_iff_dvd)
  ultimately show "- D < a smod D" "a smod D < D"
    by (cases "D dvd a"; auto simp add: signed_modulo_int_eq_modulo_int)+
qed

lemma Window_closed:
  assumes loc: "Location opt = None"
    and D: "0 < Duration (Interval opt)"
    and dom: "inWindowDomain opt t"
  shows "Window opt t =
          (max MinTime (windowBase opt t) + Offset (Interval opt),
           min MaxTime (windowBase opt t + Duration (Interval opt)) + Offset (Interval opt))"
proof -
  define Dur where "Dur = Duration (Interval opt)"
  define off where "off = Offset (Interval opt)"
  define t1 where "t1 = t - off"
  define dt where "dt = t1 mod Dur"
  have Dpos: "0 < Dur" using D by (simp add: Dur_def)
  have t1: "MinTime \<le> t1" "t1 < MaxTime"
    using dom by (simp_all add: inWindowDomain_def t1_def off_def)
  have tr: "off = 0 \<or> MinInt64 + Dur \<le> t \<and> t + Dur \<le> MaxInt64"
    using dom by (simp add: inWindowDomain_def Dur_def off_def)
  have Dmax: "Dur \<le> MaxInt64"
    using dom by (simp add: inWindowDomain_def Dur_def)
  have dt: "0 \<le> dt" "dt < Dur" using Dpos by (simp_all add: dt_def)
  have s1: "sub64 t off = t1"
    unfolding sub64_def t1_def[symmetric] using t1
    by (intro wrap64_id) (simp add: in_int64_def MinTime_def MaxTime_def MinInt64_def MaxInt64_def)
  have s2: "add64 t1 0 = t1"
    unfolding add64_def using t1
    by (simp add: wrap64_id in_int64_def MinTime_def MaxTime_def MinInt64_def MaxInt64_def)
  have r: "- Dur < t1 smod Dur" "t1 smod Dur < Dur" using go_rem_range[OF Dpos] by simp_all
  have s3a: "add64 (rem64 t1 Dur) Dur = dt" if "rem64 t1 Dur < 0"
  proof -
    have "add64 (t1 smod Dur) Dur = t1 smod Dur + Dur"
      unfolding add64_def using that r Dmax
      by (intro wrap64_id) (simp add: in_int64_def MinInt64_def MaxInt64_def rem64_def)
    then show ?thesis
      using go_rem_floor[OF Dpos, of t1] that by (simp add: rem64_def dt_def)
  qed
  have s3b: "rem64 t1 Dur = dt" if "\<not> rem64 t1 Dur < 0"
    using go_rem_floor[OF Dpos, of t1] that by (simp add: rem64_def dt_def)
  have s4: "add64 MinTime dt = MinTime + dt"
    unfolding add64_def using dt Dmax
    by (intro wrap64_id) (simp add: in_int64_def MinTime_def MinInt64_def MaxInt64_def)
  have s5: "sub64 t1 dt = t1 - dt" if "\<not> t1 \<le> MinTime + dt"
    unfolding sub64_def using that dt t1
    by (intro wrap64_id) (simp add: in_int64_def MinTime_def MaxTime_def MinInt64_def MaxInt64_def)
  have s6a: "add64 MinTime off = MinTime + off" if "t1 \<le> MinTime + dt"
    unfolding add64_def using that dt t1 tr
    by (intro wrap64_id) (auto simp add: in_int64_def t1_def MinTime_def MinInt64_def MaxInt64_def)
  have s6b: "add64 (t1 - dt) off = t1 - dt + off" if "\<not> t1 \<le> MinTime + dt"
    unfolding add64_def using that dt t1 tr
    by (intro wrap64_id) (auto simp add: in_int64_def t1_def MinTime_def MaxTime_def MinInt64_def MaxInt64_def)
  have s7: "sub64 Dur dt = Dur - dt"
    unfolding sub64_def using dt Dmax
    by (intro wrap64_id) (simp add: in_int64_def MinInt64_def MaxInt64_def)
  have s8: "sub64 MaxTime (Dur - dt) = MaxTime - (Dur - dt)"
    unfolding sub64_def using dt Dmax
    by (intro wrap64_id) (simp add: in_int64_def MaxTime_def MinInt64_def MaxInt64_def)
  have s9: "add64 t1 (Dur - dt) = t1 + (Dur - dt)" if "\<not> MaxTime - (Dur - dt) \<le> t1"
    unfolding add64_def using that dt t1
    by (intro wrap64_id) (simp add: in_int64_def MinTime_def MaxTime_def MinInt64_def MaxInt64_def)
  have s10a: "add64 MaxTime off = MaxTime + off" if "MaxTime - (Dur - dt) \<le> t1"
    unfolding add64_def using that dt t1 tr
    by (intro wrap64_id) (auto simp add: in_int64_def t1_def MaxTime_def MinInt64_def MaxInt64_def)
  have s10b: "add64 (t1 + (Dur - dt)) off = t1 + (Dur - dt) + off" if "\<not> MaxTime - (Dur - dt) \<le> t1"
    unfolding add64_def using that dt t1 tr
    by (intro wrap64_id) (auto simp add: in_int64_def t1_def MinTime_def MaxTime_def MinInt64_def MaxInt64_def)
  have nz: "\<not> IsZero (Interval opt)" using D by (simp add: IsZero_def)
  have "Window opt t =
          ((if t1 \<le> MinTime + dt then MinTime else t1 - dt) + off,
           (if MaxTime - (Dur - dt) \<le> t1 then MaxTime else t1 + (Dur - dt)) + off)"
    unfolding Window_def
    using nz loc s1 s2 s4 s7 s8 dt
    by (cases "rem64 t1 Dur < 0"; cases "t1 \<le> MinTime + dt"; cases "MaxTime - (Dur - dt) \<le> t1")
       (simp_all add: Let_def Dur_def[symmetric] off_def[symmetric] s3a s3b s5 s6a s6b s9 s10a s10b)
  then show ?thesis
    by (auto simp add: windowBase_def t1_def dt_def Dur_def off_def max_def min_def)
qed

lemma Window_contains:
  assumes loc: "Location opt = None"
    and D: "0 < Duration (Interval opt)"
    and dom: "inWindowDomain opt t"
  shows "fst (Window opt t) \<le> t \<and> t < snd (Window opt t)"
proof -
  have "0 \<le> (t - Offset (Interval opt)) mod Duration (Interval opt)"
       "(t - Offset (Interval opt)) mod Duration (Interval opt) < Duration (Interval opt)"
    using D by simp_all
  then show ?thesis
    using dom unfolding Window_closed[OF loc D dom]
    by (auto simp add: windowBase_def inWindowDomain_def max_def min_def)
qed

lemma windowBase_eq:
  assumes D: "0 < Duration (Interval opt)"
    and "windowBase opt t \<le> t' - Offset (Interval opt)"
    and "t' - Offset (Interval opt) < windowBase opt t + Duration (Interval opt)"
  shows "windowBase opt t' = windowBase opt t"
proof -
  define Dur where "Dur = Duration (Interval opt)"
  define a where "a = t - Offset (Interval opt)"
  define b where "b = t' - Offset (Interval opt)"
  have base: "windowBase opt t = Dur * (a div Dur)"
    by (simp add: windowBase_def a_def Dur_def minus_mod_eq_mult_div)
  have "Dur * (a div Dur) \<le> b" "b < Dur * (a div Dur) + Dur"
    using assms(2,3) unfolding base by (simp_all add: b_def Dur_def)
  then have "b div Dur = a div Dur"
    using D unfolding Dur_def[symmetric]
    by (intro int_div_pos_eq[where r = "b - Dur * (a div Dur)"]) (simp_all add: algebra_simps)
  then have "b - b mod Dur = a - a mod Dur"
    by (simp add: minus_mod_eq_mult_div)
  then show ?thesis
    by (simp add: windowBase_def a_def b_def Dur_def)
qed

lemma Window_same:
  assumes loc: "Location opt = None"
    and D: "0 < Duration (Interval opt)"
    and dom: "inWindowDomain opt t" and dom': "inWindowDomain opt t'"
  shows "Window opt t' = Window opt t \<longleftrightarrow> fst (Window opt t) \<le> t' \<and> t' < snd (Window opt t)"
proof
  assume "Window opt t' = Window opt t"
  then show "fst (Window opt t) \<le> t' \<and> t' < snd (Window opt t)"
    using Window_contains[OF loc D dom'] by simp
next
  assume a: "fst (Window opt t) \<le> t' \<and> t' < snd (Window opt t)"
  have "windowBase opt t \<le> t' - Offset (Interval opt)"
       "t' - Offset (Interval opt) < windowBase opt t + Duration (Interval opt)"
    using a unfolding Window_closed[OF loc D dom] by (auto simp add: max_def min_def split: if_splits)
  then have "windowBase opt t' = windowBase opt t"
    by (rule windowBase_eq[OF D])
  then show "Window opt t' = Window opt t"
    unfolding Window_closed[OF loc D dom] Window_closed[OF loc D dom'] by simp
qed


text \<open>
  Claim C5, as stated, fails: with a 10ns interval, no time zone and the default range
  \<open>[MinTime, MaxTime]\<close>, the window computed for \<open>t = MaxTime = EndTime\<close> ends at
  \<open>MaxTime\<close> (the end is clamped to the sentinel), so \<open>t < end\<close> does not hold.
\<close>

theorem Window_at_MaxTime_counterexample:
  "Location tenNsOptions = None \<and> 0 < Duration (Interval tenNsOptions) \<and>
   StartTime tenNsOptions \<le> MaxTime \<and> MaxTime \<le> EndTime tenNsOptions \<and>
   Window tenNsOptions MaxTime = (9223372036854775800, 9223372036854775806) \<and>
   \<not> MaxTime < snd (Window tenNsOptions MaxTime)"
proof -
  have w: "Window tenNsOptions MaxTime = (9223372036854775800, 9223372036854775806)"
    by code_simp
  show ?thesis
    unfolding w by (simp add: tenNsOptions_def zeroOptions_def MaxTime_def MinTime_def)
qed

text \<open>
  Claim C5, amended. With a positive duration, no time zone, and a timestamp \<open>t\<close> for which
  \<open>t - Offset\<close> lies in \<open>[MinTime, MaxTime)\<close> and adding the offset back does not leave
  \<open>int64\<close>, \<open>Window t\<close> is a half-open interval containing \<open>t\<close>; and any other such
  timestamp has the same computed window exactly when it lies in that interval.
\<close>

theorem Window_half_open:
  assumes "Location opt = None"
    and "0 < Duration (Interval opt)"
    and "inWindowDomain opt t"
  shows "fst (Window opt t) \<le> t \<and> t < snd (Window opt t) \<and>
         (\<forall>t'. inWindowDomain opt t' \<longrightarrow>
            (Window opt t' = Window opt t \<longleftrightarrow>
               fst (Window opt t) \<le> t' \<and> t' < snd (Window opt t)))"
  using Window_contains[OF assms] Window_same[OF assms] by blast

text \<open>Witness for C5: timestamps 25 and 27 share the window \<open>[20, 30)\<close>.\<close>

theorem Window_half_open_witness:
  "Location tenNsOptions = None \<and> 0 < Duration (Interval tenNsOptions) \<and>
   inWindowDomain tenNsOptions 25 \<and> inWindowDomain tenNsOptions 27 \<and>
   fst (Window tenNsOptions 25) \<le> 25 \<and> 25 < snd (Window tenNsOptions 25) \<and>
   Window tenNsOptions 27 = Window tenNsOptions 25"
proof -
  have a: "Location tenNsOptions = None" "0 < Duration (Interval tenNsOptions)"
    by (simp_all add: tenNsOptions_def zeroOptions_def)
  have b: "inWindowDomain tenNsOptions 25" "inWindowDomain tenNsOptions 27"
    by (simp_all add: inWindowDomain_def tenNsOptions_def zeroOptions_def MinTime_def MaxTime_def
          MaxInt64_def)
  have c: "Window tenNsOptions 25 = (20, 30)"
    by code_simp
  show ?thesis
    using a b Window_half_open [OF a b(1)] by (simp add: c)
qed

section \<open>Properties of the Streaming Aggregate Transform\<close>

lemma reduceValues_None: "reduceValues f vs = None \<longleftrightarrow> vs = []"
  by (cases f; cases vs) simp_all

lemma columnValues_Nil: "columnValues j [] = []"
  by (simp add: columnValues_def map_filter_simps)

lemma windowOutput_vals:
  assumes "windowOutput binds w = Some row"
  shows "vals_o row = map (\<lambda>(f, j). reduceValues f (columnValues j w)) binds"
  using assms
  by (auto simp add: windowOutput_def Let_def split: if_splits list.splits)

lemma windowOutput_None:
  assumes "w \<noteq> []"
  shows "windowOutput binds w = None \<longleftrightarrow> list_all (\<lambda>(f, j). columnValues j w = []) binds"
proof -
  have "list_all (\<lambda>v. v = None) (map (\<lambda>(f, j). reduceValues f (columnValues j w)) binds)
        \<longleftrightarrow> list_all (\<lambda>(f, j). columnValues j w = []) binds"
    by (induction binds) (auto simp add: reduceValues_None)
  then show ?thesis
    using assms by (cases w) (auto simp add: windowOutput_def Let_def)
qed

text \<open>
  The model against a second test, \<open>TestStreamAggregateTransform_Multi_Min_Integer_Max_Float\<close>:
  it emits the expected chunk \<open>buildTargetChunkMinMax\<close>.
\<close>

lemma min_max_fixture_output:
  "StreamAggregateTransform countMinOptions minMaxBindings [buildSourceChunk1, buildSourceChunk2]
     = Inr [buildTargetChunkMinMax]"
  by code_simp


text \<open>
  Claim C10. In a multi-column aggregation, a window with a non-null value in some aggregated
  column emits an output row, and in that row the cell of a \<open>count\<close> binding whose source
  column is all null in the window is null, not the integer 0; otherwise it is the integer
  number of non-null values, whatever the type of the source column.
\<close>

theorem count_of_all_null_column_is_null:
  assumes "k < length binds" and "binds ! k = (Count, j)"
    and "list_ex (\<lambda>(f, j'). columnValues j' w \<noteq> []) binds"
  shows "\<exists>row. windowOutput binds w = Some row \<and>
           cellAt (vals_o row) k =
             (if columnValues j w = [] then None
              else Some (IntegerVal (int (length (columnValues j w)))))"
proof -
  have w: "w \<noteq> []"
    using assms(3) by (auto simp add: list_ex_iff columnValues_Nil)
  have "\<not> list_all (\<lambda>(f, j). columnValues j w = []) binds"
    using assms(3) by (auto simp add: list_ex_iff list_all_iff)
  then obtain row where row: "windowOutput binds w = Some row"
    using windowOutput_None[OF w, of binds] by auto
  have "cellAt (vals_o row) k = reduceValues Count (columnValues j w)"
    using assms(1,2) by (simp add: windowOutput_vals[OF row] cellAt_def)
  then show ?thesis
    using row by (cases "columnValues j w") simp_all
qed

text \<open>
  Witness for C10: the first window of \<open>buildSrcNullChunks\<close>, and the whole test
  \<open>TestStreamAggregateTransformNullForCount\<close> (integer, float, string and boolean sources).
\<close>

theorem count_of_all_null_column_witness:
  "list_ex (\<lambda>(f, j'). columnValues j' firstNullCountWindow \<noteq> [])
     [(Count, 0), (Count, 1), (Count, 2), (Count, 3)] \<and>
   columnValues 0 firstNullCountWindow = [] \<and>
   (\<exists>row. windowOutput [(Count, 0), (Count, 1), (Count, 2), (Count, 3)] firstNullCountWindow = Some row \<and>
       cellAt (vals_o row) 0 = None) \<and>
   StreamAggregateTransform fourCountOptions fourCountBindings buildSrcNullChunks
     = Inr buildDstNullChunksForCount"
proof -
  have a: "list_ex (\<lambda>(f, j'). columnValues j' firstNullCountWindow \<noteq> [])
     [(Count, 0), (Count, 1), (Count, 2), (Count, 3)]"
    by code_simp
  have b: "columnValues 0 firstNullCountWindow = []"
    by code_simp
  have c: "StreamAggregateTransform fourCountOptions fourCountBindings buildSrcNullChunks
     = Inr buildDstNullChunksForCount"
    by code_simp
  show ?thesis
    using a b c
      count_of_all_null_column_is_null
        [of 0 "[(Count, 0), (Count, 1), (Count, 2), (Count, 3)]" 0 firstNullCountWindow]
    by simp
qed


subsection \<open>Reading the emitted chunks back\<close>















subsection \<open>Which windows and rows are put out\<close>














end
